theory Spec2Isabelle
  imports Main "HOL-Library.Multiset"
begin

section \<open>Errors\<close>

text \<open>
  Every exception the scheduler can see is a value. The three collaborator exceptions of
  the Nylas SDK are kept apart because the handlers of \<^verbatim>\<open>utils.py\<close> name them; all of
  those handlers log and re-raise, so an error travels through them unchanged. Logging
  calls are not part of the model.
\<close>

datatype error =
    NylasApiError string
  | NylasOAuthError string
  | NylasSdkTimeoutError string
  | ValueError string
  | ValidationError string
  | OtherError string

section \<open>Date-times and the pendulum library\<close>

text \<open>
  A pendulum \<^verbatim>\<open>DateTime\<close> is a wall-clock reading together with the name of its zone.
\<close>

record datetime =
  year :: int
  month :: int
  day :: int
  hour :: int
  minute :: int
  second :: int
  microsecond :: int
  tz_name :: string

text \<open>
  What pendulum decides by parsing text, by reading the clock, by consulting the time zone
  database or by calendar arithmetic is a parameter of the model, as is the text extraction
  of BeautifulSoup. Each may fail, as the library call may raise.
  \<^item> \<open>pendulum_parse text tz\<close> is \<^verbatim>\<open>pendulum.parse(text, tz=tz)\<close>;
  \<^item> \<open>pendulum_now tz\<close> is \<^verbatim>\<open>pendulum.now(tz)\<close>;
  \<^item> \<open>from_timestamp ts tz\<close> is \<^verbatim>\<open>pendulum.from_timestamp(ts, tz=UTC).in_timezone(tz)\<close>,
    and with \<open>Some ''UTC''\<close> it stands for \<^verbatim>\<open>pendulum.from_timestamp(ts)\<close>;
  \<^item> \<open>utcoffset d\<close> is the offset from UTC, in seconds, of the reading \<open>d\<close> in its zone;
  \<^item> \<open>add_minutes\<close>, \<open>add_years\<close>, \<open>subtract_years\<close>, \<open>subtract_days\<close> are
    \<^verbatim>\<open>add(minutes=n)\<close>, \<^verbatim>\<open>add(years=n)\<close>, \<^verbatim>\<open>subtract(years=n)\<close>, \<^verbatim>\<open>subtract(days=n)\<close>;
  \<^item> \<open>soup_get_text html\<close> is
    \<^verbatim>\<open>BeautifulSoup(html, 'html.parser').get_text(separator=' ', strip=True)\<close>.
\<close>

record libs =
  pendulum_parse :: "string \<Rightarrow> string \<Rightarrow> error + datetime"
  pendulum_now :: "string \<Rightarrow> error + datetime"
  from_timestamp :: "int \<Rightarrow> string option \<Rightarrow> error + datetime"
  utcoffset :: "datetime \<Rightarrow> int"
  add_minutes :: "datetime \<Rightarrow> int \<Rightarrow> error + datetime"
  add_years :: "datetime \<Rightarrow> int \<Rightarrow> error + datetime"
  subtract_years :: "datetime \<Rightarrow> int \<Rightarrow> error + datetime"
  subtract_days :: "datetime \<Rightarrow> int \<Rightarrow> error + datetime"
  soup_get_text :: "string \<Rightarrow> string"

text \<open>
  \<^verbatim>\<open>start_of('day')\<close> and \<^verbatim>\<open>end_of('day')\<close> set the time of day to 00:00:00.000000 and to
  23:59:59.999999 and keep the date and the zone. The offset the zone gives the new
  reading is whatever \<open>utcoffset\<close> says of it.
\<close>

definition start_of_day :: "datetime \<Rightarrow> datetime" where
  "start_of_day d = d\<lparr>hour := 0, minute := 0, second := 0, microsecond := 0\<rparr>"

definition end_of_day :: "datetime \<Rightarrow> datetime" where
  "end_of_day d = d\<lparr>hour := 23, minute := 59, second := 59, microsecond := 999999\<rparr>"

text \<open>
  \<^verbatim>\<open>int_timestamp\<close> subtracts the epoch from the reading, as Python's \<^verbatim>\<open>datetime\<close> does:
  whole days by the proleptic Gregorian ordinal of the date (1970-01-01 has ordinal
  719163), then the seconds of the day, less the zone's offset. Microseconds are dropped.
  The month of a date-time lies between 1 and 12, where the table of
  \<open>days_before_month\<close> is read.
\<close>

definition is_leap :: "int \<Rightarrow> bool" where
  "is_leap y = (y mod 4 = 0 \<and> (y mod 100 \<noteq> 0 \<or> y mod 400 = 0))"

definition days_before_year :: "int \<Rightarrow> int" where
  "days_before_year y = (y - 1) * 365 + (y - 1) div 4 - (y - 1) div 100 + (y - 1) div 400"

definition days_before_month :: "int \<Rightarrow> int \<Rightarrow> int" where
  "days_before_month y m =
     [0, 0, 31, 59, 90, 120, 151, 181, 212, 243, 273, 304, 334] ! nat m
       + (if m > 2 \<and> is_leap y then 1 else 0)"

definition ymd2ord :: "int \<Rightarrow> int \<Rightarrow> int \<Rightarrow> int" where
  "ymd2ord y m d = days_before_year y + days_before_month y m + d"

definition int_timestamp :: "libs \<Rightarrow> datetime \<Rightarrow> int" where
  "int_timestamp L d =
     (ymd2ord (year d) (month d) (day d) - 719163) * 86400
       + hour d * 3600 + minute d * 60 + second d - utcoffset L d"

text \<open>
  \<^verbatim>\<open>int(d.timestamp())\<close>: the timestamp with its fraction of a second, truncated towards
  zero. The rounding of the intermediate float is not modelled.
\<close>

definition timestamp_trunc :: "libs \<Rightarrow> datetime \<Rightarrow> int" where
  "timestamp_trunc L d =
     (let us = int_timestamp L d * 1000000 + microsecond d
      in if 0 \<le> us then us div 1000000 else - ((- us) div 1000000))"

fun str_nat :: "nat \<Rightarrow> string" where
  "str_nat n =
     (if n < 10 then [''0123456789'' ! n]
      else str_nat (n div 10) @ [''0123456789'' ! (n mod 10)])"

declare str_nat.simps [simp del]

definition zero_pad :: "nat \<Rightarrow> string \<Rightarrow> string" where
  "zero_pad w s = replicate (w - length s) CHR ''0'' @ s"

text \<open>\<^verbatim>\<open>to_date_string()\<close> prints \<^verbatim>\<open>YYYY-MM-DD\<close>.\<close>

definition to_date_string :: "datetime \<Rightarrow> string" where
  "to_date_string d =
     zero_pad 4 (str_nat (nat (year d))) @ ''-'' @ zero_pad 2 (str_nat (nat (month d)))
       @ ''-'' @ zero_pad 2 (str_nat (nat (day d)))"

section \<open>Data model\<close>

text \<open>
  The four shapes the SDK gives the \<^verbatim>\<open>when\<close> of an event. The request-side
  \<^verbatim>\<open>CreateDate\<close> and \<^verbatim>\<open>CreateTimespan\<close> have the fields of \<open>Date\<close> and \<open>Timespan\<close>
  and are written with these constructors. Python checks no annotation at run time, so
  \<open>OtherShape\<close> stands for any object that is an instance of none of the four classes.
\<close>

datatype when_data =
    Time int "string option"
  | Timespan int int "string option" "string option"
  | Date string
  | Datespan string string
  | OtherShape

type_synonym metadata = "(string \<times> string) list"

record participant =
  p_email :: string
  p_name :: "string option"

text \<open>The fields of the SDK's event that \<^verbatim>\<open>utils.py\<close> reads.\<close>

record nylas_event =
  ne_id :: string
  ne_title :: "string option"
  ne_when :: when_data
  ne_location :: "string option"
  ne_description :: "string option"
  ne_participants :: "participant list"
  ne_metadata :: "metadata option"
  ne_visibility :: "string option"
  ne_busy :: "bool option"
  ne_capacity :: "int option"
  ne_hide_participants :: "bool option"

record create_event_request =
  rq_title :: "string option"
  rq_when :: when_data
  rq_location :: "string option"
  rq_description :: "string option"
  rq_participants :: "participant list option"
  rq_metadata :: "metadata option"
  rq_visibility :: "string option"
  rq_busy :: "bool option"
  rq_capacity :: "int option"
  rq_hide_participants :: "bool option"

record list_event_query_params =
  qp_calendar_id :: string
  qp_start :: int
  qp_end :: "int option"
  qp_limit :: int
  qp_expand_recurring :: "bool option"
  qp_page_token :: "string option"

text \<open>\<^verbatim>\<open>EventData\<close>, \<^verbatim>\<open>Event\<close> and \<^verbatim>\<open>ActionHistoryEntry\<close> of \<^verbatim>\<open>utils.py\<close>.\<close>

record event_data =
  ed_title :: string
  ed_when :: string
  ed_duration_minutes :: int
  ed_location :: "string option"
  ed_description :: "string option"
  ed_attendees :: "string list option"
  ed_metadata :: "metadata option"
  ed_visibility :: "string option"
  ed_busy :: "bool option"
  ed_capacity :: "int option"
  ed_hide_participants :: "bool option"
  ed_all_day :: bool

record event =
  ev_id :: string
  ev_title :: string
  ev_start_time :: "datetime option"
  ev_end_time :: "datetime option"
  ev_all_day :: bool
  ev_location :: "string option"
  ev_description :: "string option"
  ev_attendees :: "string list option"
  ev_metadata :: "metadata option"

record action_history_entry =
  ah_action :: string
  ah_event_id :: string
  ah_event_data :: "nylas_event option"

section \<open>Normalising events\<close>

definition html_to_plain_text :: "libs \<Rightarrow> string option \<Rightarrow> string option" where
  "html_to_plain_text L html_content =
     (case html_content of
        None \<Rightarrow> None
      | Some h \<Rightarrow> if h \<noteq> [] then Some (soup_get_text L h) else None)"

fun parse_when ::
  "libs \<Rightarrow> when_data \<Rightarrow> string \<Rightarrow> error + (datetime option \<times> datetime option \<times> bool)" where
  "parse_when L (Time time_ts timezone) user_timezone =
     (case from_timestamp L time_ts timezone of
        Inl e \<Rightarrow> Inl e
      | Inr t \<Rightarrow> Inr (Some t, Some t, False))"
| "parse_when L (Timespan start_ts end_ts start_timezone end_timezone) user_timezone =
     (case from_timestamp L start_ts start_timezone of
        Inl e \<Rightarrow> Inl e
      | Inr start_time \<Rightarrow>
          (case from_timestamp L end_ts end_timezone of
             Inl e \<Rightarrow> Inl e
           | Inr end_time \<Rightarrow> Inr (Some start_time, Some end_time, False)))"
| "parse_when L (Date date_str) user_timezone =
     (case pendulum_parse L date_str user_timezone of
        Inl e \<Rightarrow> Inl e
      | Inr d \<Rightarrow>
          (let start_time = start_of_day d
           in Inr (Some start_time, Some (end_of_day start_time), True)))"
| "parse_when L (Datespan start_date_str end_date_str) user_timezone =
     (case pendulum_parse L start_date_str user_timezone of
        Inl e \<Rightarrow> Inl e
      | Inr d1 \<Rightarrow>
          (case pendulum_parse L end_date_str user_timezone of
             Inl e \<Rightarrow> Inl e
           | Inr d2 \<Rightarrow> Inr (Some (start_of_day d1), Some (end_of_day d2), True)))"
| "parse_when L OtherShape user_timezone = Inl (ValueError ''Unknown when_data type.'')"

text \<open>
  \<^verbatim>\<open>Event\<close> is a pydantic model whose \<^verbatim>\<open>title\<close> is a required string, while the SDK's
  title is optional: building the \<^verbatim>\<open>Event\<close> of an untitled event fails validation.
\<close>

definition parse_nylas_event :: "libs \<Rightarrow> nylas_event \<Rightarrow> string \<Rightarrow> error + event" where
  "parse_nylas_event L ev user_timezone =
     (case parse_when L (ne_when ev) user_timezone of
        Inl e \<Rightarrow> Inl e
      | Inr (start_time, end_time, all_day) \<Rightarrow>
          (let attendees =
                 (if ne_participants ev \<noteq> [] then Some (map p_email (ne_participants ev))
                  else None)
           in case ne_title ev of
                None \<Rightarrow> Inl (ValidationError ''title'')
              | Some t \<Rightarrow>
                  Inr \<lparr>ev_id = ne_id ev, ev_title = t, ev_start_time = start_time,
                       ev_end_time = end_time, ev_all_day = all_day,
                       ev_location = ne_location ev,
                       ev_description = html_to_plain_text L (ne_description ev),
                       ev_attendees = attendees,
                       ev_metadata =
                         (if ne_metadata ev = Some [] then None else ne_metadata ev)\<rparr>))"

text \<open>The list comprehension over a page: the first event that fails aborts it.\<close>

fun parse_nylas_events :: "libs \<Rightarrow> nylas_event list \<Rightarrow> string \<Rightarrow> error + event list" where
  "parse_nylas_events L [] user_timezone = Inr []"
| "parse_nylas_events L (ev # evs) user_timezone =
     (case parse_nylas_event L ev user_timezone of
        Inl e \<Rightarrow> Inl e
      | Inr x \<Rightarrow>
          (case parse_nylas_events L evs user_timezone of
             Inl e \<Rightarrow> Inl e
           | Inr xs \<Rightarrow> Inr (x # xs)))"

section \<open>Fuzzy search\<close>




section \<open>The collaborator and the scheduler\<close>

text \<open>
  The calendar service is reached through four calls of the SDK client. Each takes the
  service's state \<open>'r\<close>, may change it, and either fails or answers. A listing answers
  with a page of events and the cursor of the next page.
\<close>

type_synonym query_params = "(string \<times> string) list"

record 'r nylas_client =
  events_create ::
    "'r \<Rightarrow> string \<Rightarrow> create_event_request \<Rightarrow> query_params \<Rightarrow> (error + nylas_event) \<times> 'r"
  events_find :: "'r \<Rightarrow> string \<Rightarrow> string \<Rightarrow> query_params \<Rightarrow> (error + nylas_event) \<times> 'r"
  events_destroy :: "'r \<Rightarrow> string \<Rightarrow> string \<Rightarrow> query_params \<Rightarrow> (error + unit) \<times> 'r"
  events_list ::
    "'r \<Rightarrow> string \<Rightarrow> list_event_query_params
       \<Rightarrow> (error + nylas_event list \<times> string option) \<times> 'r"

datatype api_call =
    CreateCall string create_event_request query_params
  | FindCall string string query_params
  | DestroyCall string string query_params
  | ListCall string list_event_query_params

text \<open>
  The fields of \<^verbatim>\<open>NylasScheduler\<close>, the state of the service behind \<^verbatim>\<open>self.nylas\<close>, the
  calls issued so far in order, and the lines printed so far.
\<close>

record 'r scheduler =
  grant_id :: string
  user_timezone :: string
  calendar_id :: string
  action_history :: "action_history_entry list"
  remote :: 'r
  calls :: "api_call list"
  stdout :: "string list"

definition nylas_events_create ::
  "'r nylas_client \<Rightarrow> 'r scheduler \<Rightarrow> create_event_request
     \<Rightarrow> (error + nylas_event) \<times> 'r scheduler" where
  "nylas_events_create C s request_body =
     (let qp = [(''calendar_id'', calendar_id s), (''notify_participants'', ''false'')]
      in case events_create C (remote s) (grant_id s) request_body qp of
           (res, r) \<Rightarrow>
             (res, s\<lparr>remote := r,
                     calls := calls s @ [CreateCall (grant_id s) request_body qp]\<rparr>))"

definition nylas_events_find ::
  "'r nylas_client \<Rightarrow> 'r scheduler \<Rightarrow> string \<Rightarrow> (error + nylas_event) \<times> 'r scheduler" where
  "nylas_events_find C s eid =
     (let qp = [(''calendar_id'', calendar_id s)]
      in case events_find C (remote s) (grant_id s) eid qp of
           (res, r) \<Rightarrow>
             (res, s\<lparr>remote := r, calls := calls s @ [FindCall (grant_id s) eid qp]\<rparr>))"

definition nylas_events_destroy ::
  "'r nylas_client \<Rightarrow> 'r scheduler \<Rightarrow> string \<Rightarrow> (error + unit) \<times> 'r scheduler" where
  "nylas_events_destroy C s eid =
     (let qp = [(''calendar_id'', calendar_id s)]
      in case events_destroy C (remote s) (grant_id s) eid qp of
           (res, r) \<Rightarrow>
             (res, s\<lparr>remote := r, calls := calls s @ [DestroyCall (grant_id s) eid qp]\<rparr>))"

definition nylas_events_list ::
  "'r nylas_client \<Rightarrow> 'r scheduler \<Rightarrow> list_event_query_params
     \<Rightarrow> (error + nylas_event list \<times> string option) \<times> 'r scheduler" where
  "nylas_events_list C s qp =
     (case events_list C (remote s) (grant_id s) qp of
        (res, r) \<Rightarrow> (res, s\<lparr>remote := r, calls := calls s @ [ListCall (grant_id s) qp]\<rparr>))"

subsection \<open>create_event\<close>

text \<open>
  \<open>build_request\<close> is the part of \<^verbatim>\<open>create_event\<close> that comes before the call: it parses
  \<^verbatim>\<open>when\<close>, adds the duration and fills the request. The test
  \<^verbatim>\<open>if not parsed_datetime\<close> never fires on a value pendulum returned, so the only failure
  of the first step is the one \<open>pendulum_parse\<close> reports. After the call the entry is
  appended before the response is normalised.
\<close>

definition build_request :: "libs \<Rightarrow> string \<Rightarrow> event_data \<Rightarrow> error + create_event_request" where
  "build_request L tz event_data =
     (case pendulum_parse L (ed_when event_data) tz of
        Inl e \<Rightarrow> Inl e
      | Inr start_time \<Rightarrow>
          (case add_minutes L start_time (ed_duration_minutes event_data) of
             Inl e \<Rightarrow> Inl e
           | Inr end_time \<Rightarrow>
               (let when =
                      (if ed_all_day event_data then Date (to_date_string start_time)
                       else Timespan (timestamp_trunc L start_time) (timestamp_trunc L end_time)
                              (Some tz) (Some tz));
                    participants =
                      (case ed_attendees event_data of
                         None \<Rightarrow> None
                       | Some as \<Rightarrow>
                           if as \<noteq> [] then Some (map (\<lambda>email. \<lparr>p_email = email, p_name = None\<rparr>) as)
                           else None)
                in Inr \<lparr>rq_title = Some (ed_title event_data), rq_when = when,
                        rq_location = ed_location event_data,
                        rq_description = ed_description event_data,
                        rq_participants = participants,
                        rq_metadata = ed_metadata event_data,
                        rq_visibility = ed_visibility event_data,
                        rq_busy = ed_busy event_data,
                        rq_capacity = ed_capacity event_data,
                        rq_hide_participants = ed_hide_participants event_data\<rparr>)))"

definition create_event ::
  "libs \<Rightarrow> 'r nylas_client \<Rightarrow> 'r scheduler \<Rightarrow> event_data \<Rightarrow> (error + event) \<times> 'r scheduler" where
  "create_event L C s event_data =
     (case build_request L (user_timezone s) event_data of
        Inl e \<Rightarrow> (Inl e, s)
      | Inr create_event_request \<Rightarrow>
          (case nylas_events_create C s create_event_request of
             (Inl e, s1) \<Rightarrow> (Inl e, s1)
           | (Inr data, s1) \<Rightarrow>
               (let s2 = s1\<lparr>action_history := action_history s1 @
                             [\<lparr>ah_action = ''create'', ah_event_id = ne_id data,
                               ah_event_data = None\<rparr>]\<rparr>
                in (parse_nylas_event L data (user_timezone s2), s2))))"

subsection \<open>delete_event\<close>

definition delete_event ::
  "'r nylas_client \<Rightarrow> 'r scheduler \<Rightarrow> string \<Rightarrow> (error + unit) \<times> 'r scheduler" where
  "delete_event C s eid =
     (case nylas_events_find C s eid of
        (Inl e, s1) \<Rightarrow> (Inl e, s1)
      | (Inr ev, s1) \<Rightarrow>
          (case nylas_events_destroy C s1 eid of
             (Inl e, s2) \<Rightarrow> (Inl e, s2)
           | (Inr u, s2) \<Rightarrow>
               (Inr (), s2\<lparr>action_history := action_history s2 @
                              [\<lparr>ah_action = ''delete'', ah_event_id = eid,
                                ah_event_data = Some ev\<rparr>]\<rparr>)))"

subsection \<open>undo_last_action\<close>

text \<open>\<open>recreate_request\<close> is the request \<^verbatim>\<open>undo_last_action\<close> fills from a snapshot.\<close>

definition recreate_request :: "nylas_event \<Rightarrow> create_event_request" where
  "recreate_request ev =
     \<lparr>rq_title = ne_title ev, rq_when = ne_when ev, rq_location = ne_location ev,
      rq_description = ne_description ev, rq_participants = Some (ne_participants ev),
      rq_metadata = ne_metadata ev, rq_visibility = ne_visibility ev, rq_busy = ne_busy ev,
      rq_capacity = ne_capacity ev, rq_hide_participants = ne_hide_participants ev\<rparr>"

definition undo_last_action ::
  "'r nylas_client \<Rightarrow> 'r scheduler \<Rightarrow> (error + string) \<times> 'r scheduler" where
  "undo_last_action C s =
     (if action_history s = [] then (Inr ''No actions to undo.'', s)
      else
        (let last_action = last (action_history s);
             s1 = s\<lparr>action_history := butlast (action_history s)\<rparr>;
             act = ah_action last_action;
             eid = ah_event_id last_action
         in if act = ''create'' then
              (case nylas_events_destroy C s1 eid of
                 (Inl e, s2) \<Rightarrow> (Inl e, s2)
               | (Inr u, s2) \<Rightarrow> (Inr (''Creation of event '' @ eid @ '' has been undone.''), s2))
            else if act = ''delete'' then
              (case ah_event_data last_action of
                 None \<Rightarrow> (Inr ''No event data to recreate the event.'', s1)
               | Some ev \<Rightarrow>
                   (case nylas_events_create C s1 (recreate_request ev) of
                      (Inl e, s2) \<Rightarrow> (Inl e, s2)
                    | (Inr recreated_event, s2) \<Rightarrow>
                        (Inr (''Deletion of event '' @ eid
                                @ '' has been undone. New event ID is ''
                                @ ne_id recreated_event @ ''.''), s2)))
            else (Inr ''Unknown action.'', s1)))"

subsection \<open>get_events and get_todays_events\<close>

text \<open>
  Optional arguments are \<open>None\<close> when the caller leaves them out. \<^verbatim>\<open>end or None\<close> and
  \<^verbatim>\<open>limit or 100\<close> treat \<open>0\<close> as absent.
\<close>

definition get_events ::
  "libs \<Rightarrow> 'r nylas_client \<Rightarrow> 'r scheduler \<Rightarrow> int \<Rightarrow> int option \<Rightarrow> int option
     \<Rightarrow> (error + event list) \<times> 'r scheduler" where
  "get_events L C s start end limit =
     (let query_params =
            \<lparr>qp_calendar_id = calendar_id s, qp_start = start,
             qp_end = (if end = Some 0 then None else end),
             qp_limit = (case limit of None \<Rightarrow> 100 | Some l \<Rightarrow> if l = 0 then 100 else l),
             qp_expand_recurring = Some True, qp_page_token = None\<rparr>
      in case nylas_events_list C s query_params of
           (Inl e, s1) \<Rightarrow> (Inl e, s1)
         | (Inr (events, next_cursor), s1) \<Rightarrow>
             (parse_nylas_events L events (user_timezone s1), s1))"

definition get_todays_events ::
  "libs \<Rightarrow> 'r nylas_client \<Rightarrow> 'r scheduler \<Rightarrow> datetime option
     \<Rightarrow> (error + event list) \<times> 'r scheduler" where
  "get_todays_events L C s reference_date =
     (case (case reference_date of
              None \<Rightarrow> pendulum_now L (user_timezone s)
            | Some d \<Rightarrow> Inr d) of
        Inl e \<Rightarrow> (Inl e, s)
      | Inr ref \<Rightarrow>
          (let today = start_of_day ref;
               tomorrow = end_of_day ref
           in get_events L C s (int_timestamp L today) (Some (int_timestamp L tomorrow)) None))"

subsection \<open>get_all_events\<close>

text \<open>
  \<open>truthy\<close> is Python's test of a cursor (\<^verbatim>\<open>None\<close> and the empty string fail it),
  \<open>page_query\<close> the query of one turn of the loop, \<open>default_end\<close> the end taken when the
  caller gives none.
\<close>

definition truthy :: "string option \<Rightarrow> bool" where
  "truthy t = (case t of None \<Rightarrow> False | Some x \<Rightarrow> x \<noteq> [])"

definition page_query :: "'r scheduler \<Rightarrow> int \<Rightarrow> int \<Rightarrow> string option \<Rightarrow> list_event_query_params" where
  "page_query s start end page_token =
     \<lparr>qp_calendar_id = calendar_id s, qp_start = start, qp_end = Some end, qp_limit = 200,
      qp_expand_recurring = None,
      qp_page_token = (if truthy page_token then page_token else None)\<rparr>"

text \<open>
  The \<^verbatim>\<open>while True\<close> loop. It ends when a page comes without a cursor, or with an
  error; a collaborator that hands out cursors for ever keeps it running, and then the
  result is \<open>None\<close>.
\<close>

partial_function (option) fetch_pages ::
  "libs \<Rightarrow> 'r nylas_client \<Rightarrow> int \<Rightarrow> int \<Rightarrow> event list \<Rightarrow> string option \<Rightarrow> 'r scheduler
     \<Rightarrow> ((error + event list) \<times> 'r scheduler) option" where
  "fetch_pages L C start end all_events page_token s =
     (case nylas_events_list C s (page_query s start end page_token) of
        (Inl e, s1) \<Rightarrow> Some (Inl e, s1)
      | (Inr (events, next_cursor), s1) \<Rightarrow>
          (case parse_nylas_events L events (user_timezone s1) of
             Inl e \<Rightarrow> Some (Inl e, s1)
           | Inr parsed \<Rightarrow>
               if \<not> truthy next_cursor then Some (Inr (all_events @ parsed), s1)
               else fetch_pages L C start end (all_events @ parsed) next_cursor s1))"

declare fetch_pages.simps [code]

definition default_end :: "libs \<Rightarrow> int \<Rightarrow> error + int" where
  "default_end L start =
     (case from_timestamp L start (Some ''UTC'') of
        Inl e \<Rightarrow> Inl e
      | Inr d \<Rightarrow> (case add_years L d 1 of Inl e \<Rightarrow> Inl e | Inr d' \<Rightarrow> Inr (int_timestamp L d')))"

definition get_all_events ::
  "libs \<Rightarrow> 'r nylas_client \<Rightarrow> 'r scheduler \<Rightarrow> int \<Rightarrow> int option
     \<Rightarrow> ((error + event list) \<times> 'r scheduler) option" where
  "get_all_events L C s start end =
     (case (case end of None \<Rightarrow> default_end L start | Some e \<Rightarrow> Inr e) of
        Inl e \<Rightarrow> Some (Inl e, s)
      | Inr end' \<Rightarrow> fetch_pages L C start end' [] None s)"

subsection \<open>cleanup_calendar\<close>

text \<open>The loop over the listed events: a failed deletion is skipped.\<close>

fun delete_each :: "'r nylas_client \<Rightarrow> 'r scheduler \<Rightarrow> event list \<Rightarrow> 'r scheduler" where
  "delete_each C s [] = s"
| "delete_each C s (ev # evs) =
     (case delete_event C s (ev_id ev) of
        (Inl e, s1) \<Rightarrow> delete_each C s1 evs
      | (Inr u, s1) \<Rightarrow>
          delete_each C
            (s1\<lparr>stdout := stdout s1 @
                  [''Deleted event: '' @ ev_title ev @ '' (ID: '' @ ev_id ev @ '')'']\<rparr>) evs)"

text \<open>The retention window: from ten years back to \<open>days_to_keep\<close> days back.\<close>

definition cleanup_window :: "libs \<Rightarrow> int \<Rightarrow> error + int \<times> int" where
  "cleanup_window L days_to_keep =
     (case pendulum_now L ''UTC'' of
        Inl e \<Rightarrow> Inl e
      | Inr now \<Rightarrow>
          (case subtract_years L now 10 of
             Inl e \<Rightarrow> Inl e
           | Inr d1 \<Rightarrow>
               (case subtract_days L now days_to_keep of
                  Inl e \<Rightarrow> Inl e
                | Inr d2 \<Rightarrow>
                    Inr (int_timestamp L (start_of_day d1), int_timestamp L (end_of_day d2)))))"

definition cleanup_calendar ::
  "libs \<Rightarrow> 'r nylas_client \<Rightarrow> 'r scheduler \<Rightarrow> int option
     \<Rightarrow> ((error + unit) \<times> 'r scheduler) option" where
  "cleanup_calendar L C s days_to_keep =
     (case cleanup_window L (case days_to_keep of None \<Rightarrow> 30 | Some k \<Rightarrow> k) of
        Inl e \<Rightarrow> Some (Inl e, s)
      | Inr (start_ts, end_ts) \<Rightarrow>
          (case get_all_events L C s start_ts (Some end_ts) of
             None \<Rightarrow> None
           | Some (Inl e, s1) \<Rightarrow> Some (Inl e, s1)
           | Some (Inr events_to_delete, s1) \<Rightarrow>
               (let s2 = delete_each C s1 events_to_delete
                in Some (Inr (),
                     s2\<lparr>stdout := stdout s2 @
                          [''Cleanup complete. Deleted ''
                             @ str_nat (length events_to_delete) @ '' events.'']\<rparr>))))"

section \<open>Vocabulary of the properties\<close>

definition date_based :: "when_data \<Rightarrow> bool" where
  "date_based w = (case w of Date d \<Rightarrow> True | Datespan d1 d2 \<Rightarrow> True | _ \<Rightarrow> False)"

definition four_variants :: "when_data \<Rightarrow> bool" where
  "four_variants w = (case w of OtherShape \<Rightarrow> False | _ \<Rightarrow> True)"

definition succeeds :: "error + 'a \<Rightarrow> bool" where
  "succeeds r = (case r of Inl e \<Rightarrow> False | Inr x \<Rightarrow> True)"

text \<open>
  The library reads every part of a when-representation: its timestamps convert into
  their zones, its date strings parse in the user's zone.
\<close>

fun readable :: "libs \<Rightarrow> when_data \<Rightarrow> string \<Rightarrow> bool" where
  "readable L (Time t z) tz = succeeds (from_timestamp L t z)"
| "readable L (Timespan a b z1 z2) tz =
     (succeeds (from_timestamp L a z1) \<and> succeeds (from_timestamp L b z2))"
| "readable L (Date d) tz = succeeds (pendulum_parse L d tz)"
| "readable L (Datespan d1 d2) tz =
     (succeeds (pendulum_parse L d1 tz) \<and> succeeds (pendulum_parse L d2 tz))"
| "readable L OtherShape tz = False"

definition attendee_set :: "string list option \<Rightarrow> string set" where
  "attendee_set as = (case as of None \<Rightarrow> {} | Some xs \<Rightarrow> set xs)"

text \<open>
  A collaborator that keeps what it was sent: the event it answers a create request with
  has the request's title and location, the e-mail addresses of its participants in some
  order, and a \<^verbatim>\<open>when\<close> of the same kind.
\<close>

definition echoes :: "create_event_request \<Rightarrow> nylas_event \<Rightarrow> bool" where
  "echoes req data =
     (ne_title data = rq_title req \<and> ne_location data = rq_location req
      \<and> set (map p_email (ne_participants data))
          = set (map p_email (case rq_participants req of None \<Rightarrow> [] | Some ps \<Rightarrow> ps))
      \<and> date_based (ne_when data) = date_based (rq_when req))"

text \<open>The windows of the listings among the calls issued, in order.\<close>

fun list_windows :: "api_call list \<Rightarrow> (int \<times> int option) list" where
  "list_windows [] = []"
| "list_windows (ListCall g q # cs) = (qp_start q, qp_end q) # list_windows cs"
| "list_windows (c # cs) = list_windows cs"


inductive paging ::
  "'r nylas_client \<Rightarrow> string \<Rightarrow> (string option \<Rightarrow> list_event_query_params) \<Rightarrow> 'r
     \<Rightarrow> string option \<Rightarrow> string option list \<Rightarrow> nylas_event list list \<Rightarrow> error option \<Rightarrow> 'r
     \<Rightarrow> bool"
  for C :: "'r nylas_client" and g :: string
    and q :: "string option \<Rightarrow> list_event_query_params" where
  paging_failed:
    "events_list C r g (q tok) = (Inl e, r') \<Longrightarrow> paging C g q r tok [tok] [] (Some e) r'"
| paging_last:
    "events_list C r g (q tok) = (Inr (evs, nxt), r') \<Longrightarrow> \<not> truthy nxt
       \<Longrightarrow> paging C g q r tok [tok] [evs] None r'"
| paging_more:
    "events_list C r g (q tok) = (Inr (evs, nxt), r') \<Longrightarrow> truthy nxt
       \<Longrightarrow> paging C g q r' nxt toks pages out r''
       \<Longrightarrow> paging C g q r tok (tok # toks) (evs # pages) out r''"

section \<open>Test doubles\<close>

subsection \<open>A pendulum that knows only UTC\<close>

definition utc_days_in_month :: "int \<Rightarrow> int \<Rightarrow> int" where
  "utc_days_in_month y m =
     (if m = 2 \<and> is_leap y then 29
      else [0, 31, 28, 31, 30, 31, 30, 31, 31, 30, 31, 30, 31] ! nat m)"

definition utc_ord2ymd :: "int \<Rightarrow> int \<times> int \<times> int" where
  "utc_ord2ymd n0 =
     (let n = n0 - 1;
          n400 = n div 146097; n = n mod 146097;
          n100 = n div 36524; n = n mod 36524;
          n4 = n div 1461; n = n mod 1461;
          n1 = n div 365; n = n mod 365;
          y = n400 * 400 + 1 + n100 * 100 + n4 * 4 + n1
      in if n1 = 4 \<or> n100 = 4 then (y - 1, 12, 31)
         else
           (let m = (n + 50) div 32;
                preceding = days_before_month y m
            in if preceding > n
               then (y, m - 1, n - (preceding - utc_days_in_month y (m - 1)) + 1)
               else (y, m, n - preceding + 1)))"

definition utc_of_seconds :: "int \<Rightarrow> int \<Rightarrow> datetime" where
  "utc_of_seconds ts us =
     (case utc_ord2ymd (ts div 86400 + 719163) of
        (y, m, d) \<Rightarrow>
          \<lparr>year = y, month = m, day = d, hour = (ts mod 86400) div 3600,
           minute = (ts mod 3600) div 60, second = ts mod 60, microsecond = us,
           tz_name = ''UTC''\<rparr>)"

definition utc_seconds :: "datetime \<Rightarrow> int" where
  "utc_seconds d =
     (ymd2ord (year d) (month d) (day d) - 719163) * 86400
       + hour d * 3600 + minute d * 60 + second d"

definition digit_of :: "char \<Rightarrow> int option" where
  "digit_of c =
     map_of [(CHR ''0'', 0), (CHR ''1'', 1), (CHR ''2'', 2), (CHR ''3'', 3), (CHR ''4'', 4),
             (CHR ''5'', 5), (CHR ''6'', 6), (CHR ''7'', 7), (CHR ''8'', 8), (CHR ''9'', 9)] c"

fun read_int :: "int \<Rightarrow> string \<Rightarrow> int option" where
  "read_int acc [] = Some acc"
| "read_int acc (c # cs) =
     (case digit_of c of None \<Rightarrow> None | Some v \<Rightarrow> read_int (10 * acc + v) cs)"

definition utc_date :: "string \<Rightarrow> (int \<times> int \<times> int) option" where
  "utc_date text =
     (if length text = 10 \<and> text ! 4 = CHR ''-'' \<and> text ! 7 = CHR ''-'' then
        (case (read_int 0 (take 4 text), read_int 0 (take 2 (drop 5 text)),
               read_int 0 (drop 8 text)) of
           (Some y, Some m, Some d) \<Rightarrow>
             if 1 \<le> y \<and> 1 \<le> m \<and> m \<le> 12 \<and> 1 \<le> d \<and> d \<le> utc_days_in_month y m
             then Some (y, m, d) else None
         | _ \<Rightarrow> None)
      else None)"

definition utc_time :: "string \<Rightarrow> (int \<times> int \<times> int) option" where
  "utc_time text =
     (if length text = 9 \<and> text ! 0 = CHR ''T'' \<and> text ! 3 = CHR '':'' \<and> text ! 6 = CHR '':''
      then
        (case (read_int 0 (take 2 (drop 1 text)), read_int 0 (take 2 (drop 4 text)),
               read_int 0 (drop 7 text)) of
           (Some h, Some mi, Some s) \<Rightarrow>
             if h < 24 \<and> mi < 60 \<and> s < 60 then Some (h, mi, s) else None
         | _ \<Rightarrow> None)
      else None)"

text \<open>Reads \<^verbatim>\<open>YYYY-MM-DD\<close> and \<^verbatim>\<open>YYYY-MM-DDTHH:MM:SS\<close>, in the zone UTC only.\<close>

definition utc_parse :: "string \<Rightarrow> string \<Rightarrow> error + datetime" where
  "utc_parse text tz =
     (if tz \<noteq> ''UTC'' then Inl (ValueError ''Invalid timezone'')
      else
        (case (utc_date (take 10 text),
               if length text = 10 then Some (0, 0, 0) else utc_time (drop 10 text)) of
           (Some (y, m, d), Some (h, mi, s)) \<Rightarrow>
             Inr \<lparr>year = y, month = m, day = d, hour = h, minute = mi, second = s,
                  microsecond = 0, tz_name = ''UTC''\<rparr>
         | _ \<Rightarrow> Inl (ValueError ''Unable to parse string'')))"

definition utc_add_years :: "datetime \<Rightarrow> int \<Rightarrow> error + datetime" where
  "utc_add_years d n =
     (let y = year d + n
      in if y < 1 \<or> 9999 < y then Inl (ValueError ''year is out of range'')
         else Inr (d\<lparr>year := y, day := min (day d) (utc_days_in_month y (month d))\<rparr>))"

definition utc_shift :: "datetime \<Rightarrow> int \<Rightarrow> error + datetime" where
  "utc_shift d secs =
     (let d' = utc_of_seconds (utc_seconds d + secs) (microsecond d)
      in if year d' < 1 \<or> 9999 < year d' then Inl (ValueError ''year is out of range'')
         else Inr d')"

text \<open>The clock of the double shows the reading it is given.\<close>

definition utc_libs :: "datetime \<Rightarrow> libs" where
  "utc_libs clock =
     \<lparr>pendulum_parse = utc_parse,
      pendulum_now = (\<lambda>tz. if tz = ''UTC'' then Inr clock
                           else Inl (ValueError ''Invalid timezone'')),
      from_timestamp = (\<lambda>ts tz. if tz = Some ''UTC'' then utc_shift (utc_of_seconds 0 0) ts
                                else Inl (ValueError ''Invalid timezone'')),
      utcoffset = (\<lambda>d. 0),
      add_minutes = (\<lambda>d n. utc_shift d (60 * n)),
      add_years = utc_add_years,
      subtract_years = (\<lambda>d n. utc_add_years d (- n)),
      subtract_days = (\<lambda>d n. utc_shift d (- 86400 * n)),
      soup_get_text = (\<lambda>h. h)\<rparr>"

subsection \<open>A calendar service in memory\<close>

text \<open>
  The service keeps its events in a list, numbers the events it creates, refuses to
  delete the events named in \<open>locked\<close>, and serves at most \<open>page_size\<close> events a page.
  Its cursor is the offset of the next page, written as that many \<^verbatim>\<open>x\<close>; a listing
  that presents a cursor named in \<open>broken_cursors\<close> fails.
\<close>

record mock_remote =
  stored :: "nylas_event list"
  next_id :: nat
  locked :: "string list"
  page_size :: nat
  broken_cursors :: "string list"

definition event_of_request :: "string \<Rightarrow> create_event_request \<Rightarrow> nylas_event" where
  "event_of_request new_id req =
     \<lparr>ne_id = new_id, ne_title = rq_title req, ne_when = rq_when req,
      ne_location = rq_location req, ne_description = rq_description req,
      ne_participants = (case rq_participants req of None \<Rightarrow> [] | Some ps \<Rightarrow> ps),
      ne_metadata = rq_metadata req, ne_visibility = rq_visibility req,
      ne_busy = rq_busy req, ne_capacity = rq_capacity req,
      ne_hide_participants = rq_hide_participants req\<rparr>"

definition mock_create ::
  "mock_remote \<Rightarrow> string \<Rightarrow> create_event_request \<Rightarrow> query_params
     \<Rightarrow> (error + nylas_event) \<times> mock_remote" where
  "mock_create r g req qp =
     (let ev = event_of_request (''evt-'' @ str_nat (next_id r)) req
      in (Inr ev, r\<lparr>stored := stored r @ [ev], next_id := next_id r + 1\<rparr>))"

definition mock_find ::
  "mock_remote \<Rightarrow> string \<Rightarrow> string \<Rightarrow> query_params \<Rightarrow> (error + nylas_event) \<times> mock_remote" where
  "mock_find r g eid qp =
     (case find (\<lambda>e. ne_id e = eid) (stored r) of
        None \<Rightarrow> (Inl (NylasApiError ''event not found''), r)
      | Some ev \<Rightarrow> (Inr ev, r))"

definition mock_destroy ::
  "mock_remote \<Rightarrow> string \<Rightarrow> string \<Rightarrow> query_params \<Rightarrow> (error + unit) \<times> mock_remote" where
  "mock_destroy r g eid qp =
     (if eid \<in> set (locked r) then (Inl (NylasApiError ''event is locked''), r)
      else if find (\<lambda>e. ne_id e = eid) (stored r) = None
      then (Inl (NylasApiError ''event not found''), r)
      else (Inr (), r\<lparr>stored := filter (\<lambda>e. ne_id e \<noteq> eid) (stored r)\<rparr>))"

definition in_window :: "list_event_query_params \<Rightarrow> nylas_event \<Rightarrow> bool" where
  "in_window q ev =
     (case ne_when ev of
        Time t z \<Rightarrow> qp_start q \<le> t \<and> (case qp_end q of None \<Rightarrow> True | Some e \<Rightarrow> t \<le> e)
      | Timespan a b z1 z2 \<Rightarrow>
          qp_start q \<le> a \<and> (case qp_end q of None \<Rightarrow> True | Some e \<Rightarrow> a \<le> e)
      | _ \<Rightarrow> True)"

definition mock_list ::
  "mock_remote \<Rightarrow> string \<Rightarrow> list_event_query_params
     \<Rightarrow> (error + nylas_event list \<times> string option) \<times> mock_remote" where
  "mock_list r g q =
     (let matching = filter (in_window q) (stored r);
          offset = (case qp_page_token q of None \<Rightarrow> 0 | Some t \<Rightarrow> length t);
          n = min (nat (qp_limit q)) (page_size r)
      in if (case qp_page_token q of None \<Rightarrow> False | Some t \<Rightarrow> t \<in> set (broken_cursors r))
         then (Inl (NylasApiError ''cursor expired''), r)
         else (Inr (take n (drop offset matching),
                    if offset + n < length matching
                    then Some (replicate (offset + n) CHR ''x'') else None), r))"

definition mock_client :: "mock_remote nylas_client" where
  "mock_client =
     \<lparr>events_create = mock_create, events_find = mock_find,
      events_destroy = mock_destroy, events_list = mock_list\<rparr>"

text \<open>A service that is down: every call fails.\<close>

definition down_client :: "mock_remote nylas_client" where
  "down_client =
     \<lparr>events_create = (\<lambda>r g req qp. (Inl (NylasSdkTimeoutError ''timed out''), r)),
      events_find = (\<lambda>r g eid qp. (Inl (NylasSdkTimeoutError ''timed out''), r)),
      events_destroy = (\<lambda>r g eid qp. (Inl (NylasSdkTimeoutError ''timed out''), r)),
      events_list = (\<lambda>r g q. (Inl (NylasSdkTimeoutError ''timed out''), r))\<rparr>"

definition timed_event :: "string \<Rightarrow> string \<Rightarrow> int \<Rightarrow> nylas_event" where
  "timed_event eid title ts =
     \<lparr>ne_id = eid, ne_title = Some title,
      ne_when = Timespan ts (ts + 1800) (Some ''UTC'') (Some ''UTC''),
      ne_location = None, ne_description = None, ne_participants = [],
      ne_metadata = None, ne_visibility = None, ne_busy = Some True, ne_capacity = None,
      ne_hide_participants = None\<rparr>"

definition new_scheduler :: "'r \<Rightarrow> 'r scheduler" where
  "new_scheduler r =
     \<lparr>grant_id = ''grant'', user_timezone = ''UTC'', calendar_id = ''primary'',
      action_history = [], remote = r, calls = [], stdout = []\<rparr>"

definition noon :: datetime where
  "noon = \<lparr>year = 2024, month = 3, day = 15, hour = 12, minute = 0, second = 0,
           microsecond = 0, tz_name = ''UTC''\<rparr>"

definition demo_remote :: mock_remote where
  "demo_remote =
     \<lparr>stored = [timed_event ''evt-0'' ''Standup'' 1700000000,
                timed_event ''evt-1'' ''Review'' 1700003600,
                timed_event ''evt-2'' ''Retro'' 1700007200],
      next_id = 3, locked = [''evt-1''], page_size = 2, broken_cursors = []\<rparr>"

definition demo_scheduler :: "mock_remote scheduler" where
  "demo_scheduler = new_scheduler demo_remote"



text \<open>The event of \<^verbatim>\<open>example.py\<close>, and what becomes of it.\<close>

definition team_meeting :: event_data where
  "team_meeting =
     \<lparr>ed_title = ''Team Meeting'', ed_when = ''2023-10-15T10:00:00'',
      ed_duration_minutes = 60, ed_location = Some ''Conference Room A'',
      ed_description = Some ''Monthly team sync-up meeting.'',
      ed_attendees = Some [''alice@example.com'', ''bob@example.com''],
      ed_metadata = None, ed_visibility = None, ed_busy = None, ed_capacity = None,
      ed_hide_participants = None, ed_all_day = False\<rparr>"

definition team_meeting_request :: "when_data \<Rightarrow> create_event_request" where
  "team_meeting_request w =
     \<lparr>rq_title = Some ''Team Meeting'', rq_when = w,
      rq_location = Some ''Conference Room A'',
      rq_description = Some ''Monthly team sync-up meeting.'',
      rq_participants = Some [\<lparr>p_email = ''alice@example.com'', p_name = None\<rparr>,
                              \<lparr>p_email = ''bob@example.com'', p_name = None\<rparr>],
      rq_metadata = None, rq_visibility = None, rq_busy = None, rq_capacity = None,
      rq_hide_participants = None\<rparr>"

definition team_meeting_event :: "datetime \<Rightarrow> datetime \<Rightarrow> bool \<Rightarrow> event" where
  "team_meeting_event st en all_day =
     \<lparr>ev_id = ''evt-3'', ev_title = ''Team Meeting'', ev_start_time = Some st,
      ev_end_time = Some en, ev_all_day = all_day, ev_location = Some ''Conference Room A'',
      ev_description = Some ''Monthly team sync-up meeting.'',
      ev_attendees = Some [''alice@example.com'', ''bob@example.com''],
      ev_metadata = None\<rparr>"

definition october_15 :: "int \<Rightarrow> int \<Rightarrow> int \<Rightarrow> int \<Rightarrow> datetime" where
  "october_15 h mi s us =
     \<lparr>year = 2023, month = 10, day = 15, hour = h, minute = mi, second = s,
      microsecond = us, tz_name = ''UTC''\<rparr>"





section \<open>Properties of the Time Normalizer\<close>

text \<open>
  C9. An input to the Time Normalizer that is not one of the four when-representation
  variants makes the call fail: \<open>parse_when\<close> raises its \<^verbatim>\<open>ValueError\<close>, the invalid-input
  error of the specification, and returns no result.
\<close>

theorem parse_when_rejects_other_shapes:
  "\<not> four_variants w \<Longrightarrow> parse_when L w tz = Inl (ValueError ''Unknown when_data type.'')"
  by (cases w) (simp_all add: four_variants_def)

theorem parse_when_rejects_other_shapes_witness:
  "\<not> four_variants OtherShape
   \<and> parse_when (utc_libs noon) OtherShape ''UTC'' = Inl (ValueError ''Unknown when_data type.'')"
  using parse_when_rejects_other_shapes [of OtherShape "utc_libs noon" "''UTC''"]
  by (simp add: four_variants_def)

text \<open>
  C5. For each of the four when-representation variants and every target time zone, the
  all-day flag the Time Normalizer returns is true if and only if the variant is
  date-based. The Normalizer returns exactly when pendulum reads the variant's parts
  (its timestamps convert, its date strings parse); otherwise pendulum's error is raised.
\<close>

theorem parse_when_all_day:
  "four_variants w \<Longrightarrow>
     (\<forall>st en ad. parse_when L w tz = Inr (st, en, ad) \<longrightarrow> ad = date_based w)
     \<and> (readable L w tz \<longrightarrow> (\<exists>st en. parse_when L w tz = Inr (st, en, date_based w)))
     \<and> (\<not> readable L w tz \<longrightarrow> (\<exists>e. parse_when L w tz = Inl e))"
  by (cases w)
     (auto simp: four_variants_def date_based_def succeeds_def Let_def split: sum.splits)

theorem parse_when_all_day_witness:
  "four_variants (Date ''2024-01-15'') \<and> readable (utc_libs noon) (Date ''2024-01-15'') ''UTC''
   \<and> (\<exists>st en. parse_when (utc_libs noon) (Date ''2024-01-15'') ''UTC'' = Inr (st, en, True))
   \<and> four_variants (Time 0 (Some ''UTC'')) \<and> readable (utc_libs noon) (Time 0 (Some ''UTC'')) ''UTC''
   \<and> (\<exists>st en. parse_when (utc_libs noon) (Time 0 (Some ''UTC'')) ''UTC'' = Inr (st, en, False))"
proof -
  have v1: "four_variants (Date ''2024-01-15'')" and v2: "four_variants (Time 0 (Some ''UTC''))"
    by (simp_all add: four_variants_def)
  have r1: "readable (utc_libs noon) (Date ''2024-01-15'') ''UTC''" by code_simp
  have r2: "readable (utc_libs noon) (Time 0 (Some ''UTC'')) ''UTC''" by code_simp
  show ?thesis
    using parse_when_all_day [OF v1, of "utc_libs noon" "''UTC''"]
      parse_when_all_day [OF v2, of "utc_libs noon" "''UTC''"] v1 v2 r1 r2
    by (simp add: date_based_def)
qed

section \<open>Properties of fuzzy search\<close>





section \<open>Properties of the scheduler\<close>

lemmas call_defs = nylas_events_create_def nylas_events_find_def nylas_events_destroy_def
  nylas_events_list_def

subsection \<open>delete_event\<close>



subsection \<open>undo_last_action\<close>






text \<open>
  C7. On an empty action history \<open>undo_last_action\<close> returns the message
  \<^verbatim>\<open>No actions to undo.\<close> and leaves the whole scheduler as it was: the history stays
  empty and no collaborator call is made. When the entry popped is a \<^verbatim>\<open>delete\<close> without a
  snapshot it returns a descriptive string, again without a collaborator call. Neither
  case raises.
\<close>

theorem undo_last_action_nothing_to_undo:
  "(action_history s = [] \<longrightarrow> undo_last_action C s = (Inr ''No actions to undo.'', s))
   \<and> (action_history s = hs @ [h] \<and> ah_action h = ''delete'' \<and> ah_event_data h = None \<longrightarrow>
        undo_last_action C s
          = (Inr ''No event data to recreate the event.'', s\<lparr>action_history := hs\<rparr>))"
  by (simp add: undo_last_action_def Let_def)

theorem undo_last_action_nothing_to_undo_witness:
  "action_history demo_scheduler = []
   \<and> undo_last_action down_client demo_scheduler = (Inr ''No actions to undo.'', demo_scheduler)
   \<and> undo_last_action down_client
        (demo_scheduler\<lparr>action_history :=
           [] @ [\<lparr>ah_action = ''delete'', ah_event_id = ''evt-9'', ah_event_data = None\<rparr>]\<rparr>)
       = (Inr ''No event data to recreate the event.'', demo_scheduler)"
proof -
  have e: "action_history demo_scheduler = []"
    by (simp add: demo_scheduler_def new_scheduler_def)
  have u: "demo_scheduler\<lparr>action_history := []\<rparr> = demo_scheduler"
    by (simp add: demo_scheduler_def new_scheduler_def)
  show ?thesis
    using undo_last_action_nothing_to_undo [where s = demo_scheduler and C = down_client]
      undo_last_action_nothing_to_undo
        [where s = "demo_scheduler\<lparr>action_history :=
               [] @ [\<lparr>ah_action = ''delete'', ah_event_id = ''evt-9'', ah_event_data = None\<rparr>]\<rparr>"
           and hs = "[]"
           and h = "\<lparr>ah_action = ''delete'', ah_event_id = ''evt-9'', ah_event_data = None\<rparr>"
           and C = down_client] e u
    by simp
qed

subsection \<open>create_event\<close>

lemma build_request_fields:
  assumes "build_request L tz ed = Inr req"
  shows "rq_title req = Some (ed_title ed)"
    and "rq_location req = ed_location ed"
    and "set (map p_email (case rq_participants req of None \<Rightarrow> [] | Some ps \<Rightarrow> ps))
           = attendee_set (ed_attendees ed)"
    and "date_based (rq_when req) = ed_all_day ed"
  using assms
  by (auto simp: build_request_def attendee_set_def date_based_def Let_def image_image
           split: sum.splits option.splits if_splits)

lemma parse_when_flag:
  "parse_when L w tz = Inr (st, en, ad) \<Longrightarrow> ad = date_based w"
  by (cases w) (auto simp: date_based_def Let_def split: sum.splits)

lemma parse_nylas_event_fields:
  assumes "parse_nylas_event L data tz = Inr ev"
  shows "ne_title data = Some (ev_title ev)"
    and "ev_location ev = ne_location data"
    and "attendee_set (ev_attendees ev) = set (map p_email (ne_participants data))"
    and "ev_all_day ev = date_based (ne_when data)"
proof -
  from assms obtain st en ad t where pw: "parse_when L (ne_when data) tz = Inr (st, en, ad)"
    and t: "ne_title data = Some t"
    and ev: "ev = \<lparr>ev_id = ne_id data, ev_title = t, ev_start_time = st,
                   ev_end_time = en, ev_all_day = ad, ev_location = ne_location data,
                   ev_description = html_to_plain_text L (ne_description data),
                   ev_attendees =
                     (if ne_participants data \<noteq> [] then Some (map p_email (ne_participants data))
                      else None),
                   ev_metadata =
                     (if ne_metadata data = Some [] then None else ne_metadata data)\<rparr>"
    by (auto simp: parse_nylas_event_def Let_def split: sum.splits option.splits)
  show "ne_title data = Some (ev_title ev)" by (simp add: t ev)
  show "ev_location ev = ne_location data" by (simp add: ev)
  show "attendee_set (ev_attendees ev) = set (map p_email (ne_participants data))"
    by (simp add: ev attendee_set_def)
  show "ev_all_day ev = date_based (ne_when data)"
    using parse_when_flag [OF pw] by (simp add: ev)
qed

lemma create_event_returns:
  assumes "build_request L (user_timezone s) event_data = Inr req"
    and "events_create C (remote s) (grant_id s) req
           [(''calendar_id'', calendar_id s), (''notify_participants'', ''false'')]
         = (Inr data, r')"
  shows "create_event L C s event_data
         = (parse_nylas_event L data (user_timezone s),
            s\<lparr>remote := r',
              calls := calls s @
                [CreateCall (grant_id s) req
                   [(''calendar_id'', calendar_id s), (''notify_participants'', ''false'')]],
              action_history := action_history s @
                [\<lparr>ah_action = ''create'', ah_event_id = ne_id data, ah_event_data = None\<rparr>]\<rparr>)"
  using assms by (simp add: create_event_def call_defs Let_def)

text \<open>
  C4. Round trip. When an \<^verbatim>\<open>EventData\<close> is translated into a create request, the
  collaborator answers with an event that keeps what the request said, and that event is
  parsed back, then \<open>create_event\<close> returns the parsed event, and its title, its location,
  its set of attendees and its all-day flag are those of the input.
\<close>

theorem create_event_round_trip:
  assumes req: "build_request L (user_timezone s) event_data = Inr req"
    and resp: "events_create C (remote s) (grant_id s) req
                 [(''calendar_id'', calendar_id s), (''notify_participants'', ''false'')]
               = (Inr data, r')"
    and echo: "echoes req data"
    and norm: "parse_nylas_event L data (user_timezone s) = Inr ev"
  shows "fst (create_event L C s event_data) = Inr ev
         \<and> ev_title ev = ed_title event_data
         \<and> ev_location ev = ed_location event_data
         \<and> attendee_set (ev_attendees ev) = attendee_set (ed_attendees event_data)
         \<and> ev_all_day ev = ed_all_day event_data"
proof -
  have "fst (create_event L C s event_data) = Inr ev"
    by (simp add: create_event_returns [OF req resp] norm)
  moreover have "ev_title ev = ed_title event_data"
    using build_request_fields(1) [OF req] parse_nylas_event_fields(1) [OF norm] echo
    by (simp add: echoes_def)
  moreover have "ev_location ev = ed_location event_data"
    using build_request_fields(2) [OF req] parse_nylas_event_fields(2) [OF norm] echo
    by (simp add: echoes_def)
  moreover have "attendee_set (ev_attendees ev) = attendee_set (ed_attendees event_data)"
    using build_request_fields(3) [OF req] parse_nylas_event_fields(3) [OF norm] echo
    by (simp add: echoes_def)
  moreover have "ev_all_day ev = ed_all_day event_data"
    using build_request_fields(4) [OF req] parse_nylas_event_fields(4) [OF norm] echo
    by (simp add: echoes_def)
  ultimately show ?thesis by simp
qed

theorem create_event_round_trip_witness:
  "build_request (utc_libs noon) (user_timezone demo_scheduler) (team_meeting\<lparr>ed_all_day := True\<rparr>)
     = Inr (team_meeting_request (Date ''2023-10-15''))
   \<and> events_create mock_client (remote demo_scheduler) (grant_id demo_scheduler)
       (team_meeting_request (Date ''2023-10-15''))
       [(''calendar_id'', calendar_id demo_scheduler), (''notify_participants'', ''false'')]
     = (Inr (event_of_request ''evt-3'' (team_meeting_request (Date ''2023-10-15''))),
        demo_remote\<lparr>stored := stored demo_remote @
                      [event_of_request ''evt-3'' (team_meeting_request (Date ''2023-10-15''))],
                    next_id := 4\<rparr>)
   \<and> echoes (team_meeting_request (Date ''2023-10-15''))
       (event_of_request ''evt-3'' (team_meeting_request (Date ''2023-10-15'')))
   \<and> fst (create_event (utc_libs noon) mock_client demo_scheduler
             (team_meeting\<lparr>ed_all_day := True\<rparr>))
     = Inr (team_meeting_event (october_15 0 0 0 0) (october_15 23 59 59 999999) True)
   \<and> fst (create_event (utc_libs noon) mock_client demo_scheduler team_meeting)
     = Inr (team_meeting_event (october_15 10 0 0 0) (october_15 11 0 0 0) False)"
proof -
  let ?L = "utc_libs noon"
  let ?qp = "[(''calendar_id'', calendar_id demo_scheduler), (''notify_participants'', ''false'')]"
  let ?rd = "team_meeting_request (Date ''2023-10-15'')"
  let ?rt = "team_meeting_request (Timespan 1697364000 1697367600 (Some ''UTC'') (Some ''UTC''))"
  have b1: "build_request ?L (user_timezone demo_scheduler) (team_meeting\<lparr>ed_all_day := True\<rparr>)
              = Inr ?rd"
    by code_simp
  have b2: "build_request ?L (user_timezone demo_scheduler) team_meeting = Inr ?rt"
    by code_simp
  have c1: "events_create mock_client (remote demo_scheduler) (grant_id demo_scheduler) ?rd ?qp
              = (Inr (event_of_request ''evt-3'' ?rd),
                 demo_remote\<lparr>stored := stored demo_remote @ [event_of_request ''evt-3'' ?rd],
                             next_id := 4\<rparr>)"
    by code_simp
  have c2: "events_create mock_client (remote demo_scheduler) (grant_id demo_scheduler) ?rt ?qp
              = (Inr (event_of_request ''evt-3'' ?rt),
                 demo_remote\<lparr>stored := stored demo_remote @ [event_of_request ''evt-3'' ?rt],
                             next_id := 4\<rparr>)"
    by code_simp
  have e1: "echoes ?rd (event_of_request ''evt-3'' ?rd)"
    and e2: "echoes ?rt (event_of_request ''evt-3'' ?rt)"
    by (simp_all add: echoes_def event_of_request_def)
  have n1: "parse_nylas_event ?L (event_of_request ''evt-3'' ?rd) (user_timezone demo_scheduler)
              = Inr (team_meeting_event (october_15 0 0 0 0) (october_15 23 59 59 999999) True)"
    by code_simp
  have n2: "parse_nylas_event ?L (event_of_request ''evt-3'' ?rt) (user_timezone demo_scheduler)
              = Inr (team_meeting_event (october_15 10 0 0 0) (october_15 11 0 0 0) False)"
    by code_simp
  show ?thesis
    using create_event_round_trip [OF b1 c1 e1 n1] create_event_round_trip [OF b2 c2 e2 n2]
      b1 c1 e1
    by simp
qed

subsection \<open>get_todays_events\<close>

lemma end_of_day_after_start_of_day:
  "utcoffset L (end_of_day d) = utcoffset L (start_of_day d) \<Longrightarrow>
     int_timestamp L (end_of_day d) = int_timestamp L (start_of_day d) + 86399"
  by (simp add: int_timestamp_def start_of_day_def end_of_day_def)

lemma get_events_call:
  "calls (snd (get_events L C s start end limit))
     = calls s @
       [ListCall (grant_id s)
          \<lparr>qp_calendar_id = calendar_id s, qp_start = start,
           qp_end = (if end = Some 0 then None else end),
           qp_limit = (case limit of None \<Rightarrow> 100 | Some l \<Rightarrow> if l = 0 then 100 else l),
           qp_expand_recurring = Some True, qp_page_token = None\<rparr>]"
  by (simp add: get_events_def call_defs Let_def split: prod.splits sum.splits)

text \<open>
  C8, as the code has it. The `today' query issues one listing whose window starts at
  \<^verbatim>\<open>start_of('day')\<close> of the reference date and ends at \<^verbatim>\<open>end_of('day')\<close> of the same date:
  the reading 23:59:59.999999 of that day, passed as a whole-second timestamp. Where the
  zone's offset is the same at both ends of the day, the end is 86399 seconds after the
  start, one second short of the next midnight. The day is that of the reference date in
  the reference date's own zone; the configured zone is read only when no reference date
  is given.
\<close>

theorem get_todays_events_window:
  assumes "(case reference_date of None \<Rightarrow> pendulum_now L (user_timezone s) | Some d \<Rightarrow> Inr d)
             = Inr ref"
  shows "calls (snd (get_todays_events L C s reference_date))
           = calls s @
             [ListCall (grant_id s)
                \<lparr>qp_calendar_id = calendar_id s,
                 qp_start = int_timestamp L (start_of_day ref),
                 qp_end = (if int_timestamp L (end_of_day ref) = 0 then None
                           else Some (int_timestamp L (end_of_day ref))),
                 qp_limit = 100, qp_expand_recurring = Some True, qp_page_token = None\<rparr>]
         \<and> end_of_day ref = ref\<lparr>hour := 23, minute := 59, second := 59, microsecond := 999999\<rparr>
         \<and> (utcoffset L (end_of_day ref) = utcoffset L (start_of_day ref) \<longrightarrow>
              int_timestamp L (end_of_day ref) = int_timestamp L (start_of_day ref) + 86399)"
  using assms
  by (simp add: get_todays_events_def get_events_call Let_def end_of_day_after_start_of_day)
     (simp add: end_of_day_def)

theorem get_todays_events_window_witness:
  "(case Some noon of None \<Rightarrow> pendulum_now (utc_libs noon) (user_timezone demo_scheduler)
    | Some d \<Rightarrow> Inr d) = Inr noon
   \<and> utcoffset (utc_libs noon) (end_of_day noon) = utcoffset (utc_libs noon) (start_of_day noon)
   \<and> calls (snd (get_todays_events (utc_libs noon) mock_client demo_scheduler (Some noon)))
     = [ListCall ''grant''
          \<lparr>qp_calendar_id = ''primary'', qp_start = 1710460800, qp_end = Some 1710547199,
           qp_limit = 100, qp_expand_recurring = Some True, qp_page_token = None\<rparr>]
   \<and> int_timestamp (utc_libs noon) (end_of_day noon)
     = int_timestamp (utc_libs noon) (start_of_day noon) + 86399"
proof -
  have a: "(case Some noon of None \<Rightarrow> pendulum_now (utc_libs noon) (user_timezone demo_scheduler)
            | Some d \<Rightarrow> Inr d) = Inr noon"
    by simp
  have o: "utcoffset (utc_libs noon) (end_of_day noon)
             = utcoffset (utc_libs noon) (start_of_day noon)"
    by (simp add: utc_libs_def)
  have t: "int_timestamp (utc_libs noon) (start_of_day noon) = 1710460800"
    "int_timestamp (utc_libs noon) (end_of_day noon) = 1710547199"
    by code_simp+
  have s0: "calls demo_scheduler = []" "grant_id demo_scheduler = ''grant''"
    "calendar_id demo_scheduler = ''primary''"
    by (simp_all add: demo_scheduler_def new_scheduler_def)
  show ?thesis
    using get_todays_events_window [OF a, of mock_client] o t s0 by simp
qed

text \<open>
  C8 as stated fails: for the reference date 2024-03-15 12:00 UTC the window passed is
  1710460800 to 1710547199, while the midnight that begins 2024-03-16 is 1710547200.
\<close>

theorem get_todays_events_counterexample:
  "list_windows (calls (snd (get_todays_events (utc_libs noon) mock_client demo_scheduler
                               (Some noon))))
     = [(1710460800, Some 1710547199)]
   \<and> int_timestamp (utc_libs noon) (start_of_day noon) = 1710460800
   \<and> int_timestamp (utc_libs noon) (start_of_day (noon\<lparr>day := 16\<rparr>)) = 1710547200
   \<and> list_windows (calls (snd (get_todays_events (utc_libs noon) mock_client demo_scheduler
                                 (Some noon))))
     \<noteq> [(int_timestamp (utc_libs noon) (start_of_day noon),
          Some (int_timestamp (utc_libs noon) (start_of_day (noon\<lparr>day := 16\<rparr>))))]"
  by code_simp

subsection \<open>cleanup_calendar\<close>

text \<open>
  Whatever the deletions do, the clean-up completes once the listing has succeeded, and
  its last line counts the events listed.
\<close>

lemma cleanup_calendar_last_line:
  assumes "cleanup_window L (case days_to_keep of None \<Rightarrow> 30 | Some k \<Rightarrow> k) = Inr (a, b)"
    and "get_all_events L C s a (Some b) = Some (Inr events_to_delete, s1)"
  shows "\<exists>s2. cleanup_calendar L C s days_to_keep = Some (Inr (), s2)
              \<and> last (stdout s2)
                  = ''Cleanup complete. Deleted '' @ str_nat (length events_to_delete)
                      @ '' events.''"
  using assms by (simp add: cleanup_calendar_def Let_def)

text \<open>
  C1, evaluated. The service holds three events in the retention window and refuses to
  delete \<^verbatim>\<open>evt-1\<close>. The clean-up completes, deletes two events (two lines
  \<^verbatim>\<open>Deleted event\<close>, two delete entries, \<^verbatim>\<open>evt-1\<close> still stored) and reports
  \<^verbatim>\<open>Deleted 3 events.\<close>: the count printed is the number of events listed, not the number
  of deletions that succeeded.
\<close>

theorem cleanup_calendar_reports_listed_events:
  "map_option (\<lambda>(res, s'). (res, stdout s', map ne_id (stored (remote s')),
                             map ah_event_id (action_history s')))
     (cleanup_calendar (utc_libs noon) mock_client demo_scheduler None)
   = Some (Inr (),
           [''Deleted event: Standup (ID: evt-0)'', ''Deleted event: Retro (ID: evt-2)'',
            ''Cleanup complete. Deleted 3 events.''],
           [''evt-1''], [''evt-0'', ''evt-2''])"
  by code_simp

subsection \<open>get_all_events\<close>






end
